theory Spec2Isabelle
  imports Complex_Main "HOL-Library.Sublist"
begin

section \<open>Numbers, dates and times\<close>

text \<open>
  Amounts, budgets and ratings are Python and numpy floats in the source. They are
  modelled as exact real numbers: the threshold logic, the sums and the comparisons are
  those of the source, the rounding of binary floating point is not represented.

  The one place where the float semantics changes the control flow is a division by zero:
  a pandas aggregate is a numpy scalar, and dividing a numpy scalar by zero does not raise
  but yields an infinity or a NaN (with a warning). That is kept, with the type
  \<open>npfloat\<close>.
\<close>

datatype npfloat = Fin real | PInf | NInf | NaN

definition np_div :: "real \<Rightarrow> real \<Rightarrow> npfloat" where
  "np_div x y =
     (if y \<noteq> 0 then Fin (x / y)
      else if 0 < x then PInf
      else if x < 0 then NInf
      else NaN)"

fun np_times :: "npfloat \<Rightarrow> real \<Rightarrow> npfloat" where
  "np_times (Fin x) c = Fin (x * c)"
| "np_times PInf c = (if 0 < c then PInf else if c < 0 then NInf else NaN)"
| "np_times NInf c = (if 0 < c then NInf else if c < 0 then PInf else NaN)"
| "np_times NaN c = NaN"

fun np_ge :: "npfloat \<Rightarrow> real \<Rightarrow> bool" where
  "np_ge (Fin x) c = (c \<le> x)"
| "np_ge PInf c = True"
| "np_ge NInf c = False"
| "np_ge NaN c = False"

fun np_lt :: "npfloat \<Rightarrow> real \<Rightarrow> bool" where
  "np_lt (Fin x) c = (x < c)"
| "np_lt PInf c = False"
| "np_lt NInf c = True"
| "np_lt NaN c = False"

text \<open>
  A date is its proleptic Gregorian ordinal (\<^verbatim>\<open>date.toordinal()\<close>: day 1 is
  0001-01-01), so that comparing dates is comparing integers and adding a
  \<^verbatim>\<open>timedelta(days=n)\<close> is adding \<open>n\<close>. The ISO text of a date in a file
  (\<^verbatim>\<open>isoformat\<close>, read back by \<^verbatim>\<open>strptime\<close>) is represented by the date itself.
  A datetime is a date and the microseconds since midnight.
\<close>

type_synonym date = int

record datetime =
  ordinal :: date
  micros :: nat

definition dt_le :: "datetime \<Rightarrow> datetime \<Rightarrow> bool" where
  "dt_le a b = (ordinal a < ordinal b \<or> (ordinal a = ordinal b \<and> micros a \<le> micros b))"

datatype error = OverflowError | ReError | AttributeError | TypeError

definition MAXORDINAL :: int where
  "MAXORDINAL = 3652059"

text \<open>\<^verbatim>\<open>timedelta(days=n)\<close> accepts at most 999999999 days in either direction.\<close>

definition timedelta_days :: "int \<Rightarrow> error + int" where
  "timedelta_days n = (if - 999999999 \<le> n \<and> n \<le> 999999999 then Inr n else Inl OverflowError)"

text \<open>\<^verbatim>\<open>date + timedelta\<close>: the result must be a date of the years 1 to 9999.\<close>

definition date_add :: "date \<Rightarrow> int \<Rightarrow> error + date" where
  "date_add d n =
     (let o' = d + n in if 0 < o' \<and> o' \<le> MAXORDINAL then Inr o' else Inl OverflowError)"

subsection \<open>Calendar arithmetic of the datetime library\<close>

text \<open>
  The source asks the library for the weekday, the ISO week and the first day of the month
  of a date. These follow the reference implementation of \<^verbatim>\<open>datetime\<close>
  (\<^verbatim>\<open>_is_leap\<close>, \<^verbatim>\<open>_days_before_year\<close>, \<^verbatim>\<open>_ymd2ord\<close>, \<^verbatim>\<open>_ord2ymd\<close>,
  \<^verbatim>\<open>_isoweek1monday\<close>, \<^verbatim>\<open>isocalendar\<close>).
\<close>

definition is_leap :: "int \<Rightarrow> bool" where
  "is_leap year = (year mod 4 = 0 \<and> (year mod 100 \<noteq> 0 \<or> year mod 400 = 0))"

definition days_before_year :: "int \<Rightarrow> int" where
  "days_before_year year =
     (let y = year - 1 in y * 365 + y div 4 - y div 100 + y div 400)"

definition DAYS_IN_MONTH :: "int list" where
  "DAYS_IN_MONTH = [-1, 31, 28, 31, 30, 31, 30, 31, 31, 30, 31, 30, 31]"

definition DAYS_BEFORE_MONTH :: "int list" where
  "DAYS_BEFORE_MONTH = [-1, 0, 31, 59, 90, 120, 151, 181, 212, 243, 273, 304, 334]"

definition days_before_month :: "int \<Rightarrow> int \<Rightarrow> int" where
  "days_before_month year month =
     DAYS_BEFORE_MONTH ! nat month + (if 2 < month \<and> is_leap year then 1 else 0)"

definition ymd2ord :: "int \<Rightarrow> int \<Rightarrow> int \<Rightarrow> date" where
  "ymd2ord year month day = days_before_year year + days_before_month year month + day"

definition ord2ymd :: "date \<Rightarrow> int \<times> int \<times> int" where
  "ord2ymd n0 =
     (let n = n0 - 1;
          n400 = n div 146097; n = n mod 146097;
          year = n400 * 400 + 1;
          n100 = n div 36524; n = n mod 36524;
          n4 = n div 1461; n = n mod 1461;
          n1 = n div 365; n = n mod 365;
          year = year + n100 * 100 + n4 * 4 + n1
      in if n1 = 4 \<or> n100 = 4 then (year - 1, 12, 31)
         else
           let leapyear = (n1 = 3 \<and> (n4 \<noteq> 24 \<or> n100 = 3));
               month = (n + 50) div 32;
               preceding = DAYS_BEFORE_MONTH ! nat month + (if 2 < month \<and> leapyear then 1 else 0)
           in if n < preceding
              then
                let month = month - 1;
                    preceding = preceding
                      - (DAYS_IN_MONTH ! nat month + (if month = 2 \<and> leapyear then 1 else 0))
                in (year, month, n - preceding + 1)
              else (year, month, n - preceding + 1))"

definition isoweek1monday :: "int \<Rightarrow> date" where
  "isoweek1monday year =
     (let firstday = ymd2ord year 1 1;
          firstweekday = (firstday + 6) mod 7;
          week1monday = firstday - firstweekday
      in if 3 < firstweekday then week1monday + 7 else week1monday)"

definition isocalendar :: "date \<Rightarrow> int \<times> int \<times> int" where
  "isocalendar today =
     (let year = fst (ord2ymd today);
          week1monday = isoweek1monday year;
          week = (today - week1monday) div 7;
          day = (today - week1monday) mod 7
      in if week < 0
         then
           let year = year - 1;
               week1monday = isoweek1monday year
           in (year, (today - week1monday) div 7 + 1, (today - week1monday) mod 7 + 1)
         else if 52 \<le> week \<and> isoweek1monday (year + 1) \<le> today
         then (year + 1, 1, day + 1)
         else (year, week + 1, day + 1))"

definition iso_week :: "date \<Rightarrow> nat" where
  "iso_week d = nat (fst (snd (isocalendar d)))"

datatype weekday = Monday | Tuesday | Wednesday | Thursday | Friday | Saturday | Sunday

definition day_name :: "date \<Rightarrow> weekday" where
  "day_name d = [Monday, Tuesday, Wednesday, Thursday, Friday, Saturday, Sunday] ! nat ((d + 6) mod 7)"

text \<open>\<^verbatim>\<open>d.replace(day=1)\<close>.\<close>

definition replace_day1 :: "date \<Rightarrow> date" where
  "replace_day1 d = (case ord2ymd d of (year, month, _) \<Rightarrow> ymd2ord year month 1)"


section \<open>Strings\<close>

text \<open>
  Strings are byte strings here; \<^verbatim>\<open>str.lower\<close> and \<^verbatim>\<open>str.strip\<close> are modelled on
  ASCII, where they agree with Python's.
\<close>

definition ascii_uppercase :: string where
  "ascii_uppercase = ''ABCDEFGHIJKLMNOPQRSTUVWXYZ''"

definition ascii_lowercase :: string where
  "ascii_lowercase = ''abcdefghijklmnopqrstuvwxyz''"

definition lower_char :: "char \<Rightarrow> char" where
  "lower_char c =
     (case map_of (zip ascii_uppercase ascii_lowercase) c of None \<Rightarrow> c | Some l \<Rightarrow> l)"

definition lower :: "string \<Rightarrow> string" where
  "lower s = map lower_char s"

definition isspace :: "char \<Rightarrow> bool" where
  "isspace c = ((of_char c :: nat) \<in> {9, 10, 11, 12, 13, 28, 29, 30, 31, 32})"

definition strip :: "string \<Rightarrow> string" where
  "strip s = rev (dropWhile isspace (rev (dropWhile isspace s)))"

section \<open>ReminderManager\<close>

text \<open>
  A reminder is a JSON object with the keys \<^verbatim>\<open>task\<close>, \<^verbatim>\<open>time\<close> and
  \<^verbatim>\<open>completed\<close>. In the file the key \<^verbatim>\<open>completed\<close> may be absent (\<open>None\<close>);
  \<^verbatim>\<open>load\<close> fills it in, so the tasks in memory always carry it. The file itself is the
  JSON document it holds, or \<open>None\<close> when it does not exist
  (\<^verbatim>\<open>FileNotFoundError\<close>).
\<close>

record 'c reminder =
  task :: string
  time :: string
  completed :: 'c

type_synonym reminder_file = "bool option reminder list option"

definition ReminderManager_load :: "reminder_file \<Rightarrow> bool reminder list" where
  "ReminderManager_load file =
     (case file of
        None \<Rightarrow> []
      | Some data \<Rightarrow>
          map (\<lambda>t. \<lparr>task = task t, time = time t,
                     completed = (case completed t of None \<Rightarrow> False | Some c \<Rightarrow> c)\<rparr>) data)"

definition ReminderManager_save :: "bool reminder list \<Rightarrow> reminder_file" where
  "ReminderManager_save tasks =
     Some (map (\<lambda>t. \<lparr>task = task t, time = time t, completed = Some (completed t)\<rparr>) tasks)"

definition ReminderManager_add :: "reminder_file \<Rightarrow> string \<Rightarrow> string \<Rightarrow> reminder_file" where
  "ReminderManager_add file task_text date_time =
     ReminderManager_save
       (ReminderManager_load file @ [\<lparr>task = strip task_text, time = date_time, completed = False\<rparr>])"

text \<open>
  \<^verbatim>\<open>check_reminders\<close>. The library's \<^verbatim>\<open>datetime.strptime\<close> is a parameter
  \<open>strptime text format\<close>, \<open>None\<close> when it raises; the clock read
  \<^verbatim>\<open>datetime.now()\<close> is the argument \<open>now\<close>. \<open>check_loop\<close> is the \<^verbatim>\<open>for\<close> loop, with
  the list of notifications built so far.
\<close>

fun check_loop ::
  "(string \<Rightarrow> string \<Rightarrow> datetime option) \<Rightarrow> datetime \<Rightarrow> bool reminder list \<Rightarrow> string list
     \<Rightarrow> string list" where
  "check_loop strptime now [] notifications = notifications"
| "check_loop strptime now (t # tasks) notifications =
     check_loop strptime now tasks
       (if \<not> completed t then
          (case strptime (time t) ''%Y-%m-%d %H:%M'' of
             Some task_time \<Rightarrow>
               if dt_le task_time now then notifications @ [task t] else notifications
           | None \<Rightarrow>
               (case strptime (time t) ''%Y-%m-%d'' of
                  Some task_time \<Rightarrow>
                    if ordinal task_time \<le> ordinal now then notifications @ [task t]
                    else notifications
                | None \<Rightarrow> notifications))
        else notifications)"

definition check_reminders ::
  "(string \<Rightarrow> string \<Rightarrow> datetime option) \<Rightarrow> reminder_file \<Rightarrow> datetime \<Rightarrow> string list" where
  "check_reminders strptime file now = check_loop strptime now (ReminderManager_load file) []"

section \<open>ExpenseManager\<close>

text \<open>
  A loaded expense table has the columns \<^verbatim>\<open>Item\<close>, \<^verbatim>\<open>Amount\<close> and, when \<open>has_Date\<close>,
  \<^verbatim>\<open>Date\<close> (without that column the \<open>Date\<close> cells of the model carry no information); a
  \<^verbatim>\<open>Date\<close> cell is a timestamp or \<^verbatim>\<open>NaT\<close> (\<open>None\<close>).
\<close>

record 'd expense =
  Item :: string
  Amount :: real
  Date :: 'd

record 'd frame =
  has_Date :: bool
  rows :: "'d expense list"

text \<open>
  The CSV file is a table of text cells, or \<open>None\<close> when it does not exist. What
  \<^verbatim>\<open>read_csv\<close>, \<^verbatim>\<open>pd.to_datetime(..., errors='coerce')\<close> and \<^verbatim>\<open>to_csv\<close> make of a cell
  belongs to pandas and is a parameter, one function for each column and direction. Each
  takes the whole column and the cell, since pandas decides the type of a column, and the
  format of its dates, from the column as a whole.
\<close>

record csv_row =
  csv_Item :: string
  csv_Amount :: string
  csv_Date :: string

record csv_table =
  csv_has_Date :: bool
  csv_rows :: "csv_row list"

type_synonym expense_file = "csv_table option"

record pandas =
  read_Item :: "string list \<Rightarrow> string \<Rightarrow> string"
  read_Amount :: "string list \<Rightarrow> string \<Rightarrow> real"
  to_datetime :: "string list \<Rightarrow> string \<Rightarrow> datetime option"
  write_Item :: "string list \<Rightarrow> string \<Rightarrow> string"
  write_Amount :: "real list \<Rightarrow> real \<Rightarrow> string"
  write_Date :: "datetime option list \<Rightarrow> datetime option \<Rightarrow> string"

definition ExpenseManager_load :: "pandas \<Rightarrow> expense_file \<Rightarrow> datetime option frame" where
  "ExpenseManager_load pd file =
     (case file of
        None \<Rightarrow> \<lparr>has_Date = True, rows = []\<rparr>
      | Some csv \<Rightarrow>
          let items = map csv_Item (csv_rows csv);
              amounts = map csv_Amount (csv_rows csv);
              dates = map csv_Date (csv_rows csv)
          in \<lparr>has_Date = csv_has_Date csv,
              rows = map (\<lambda>r. \<lparr>Item = read_Item pd items (csv_Item r),
                                 Amount = read_Amount pd amounts (csv_Amount r),
                                 Date = (if csv_has_Date csv then to_datetime pd dates (csv_Date r)
                                         else None)\<rparr>)
                       (csv_rows csv)\<rparr>)"


text \<open>
  \<^verbatim>\<open>df.groupby(key)[...].sum()\<close>: one entry per key that occurs, in the sorted order of
  the keys, which is given as the list of all possible keys in that order.
\<close>

definition groupby_sum :: "'k list \<Rightarrow> ('k \<times> real) list \<Rightarrow> ('k \<times> real) list" where
  "groupby_sum sorted_keys kvs =
     map (\<lambda>k. (k, sum_list (map snd (filter (\<lambda>kv. fst kv = k) kvs))))
         (filter (\<lambda>k. k \<in> set (map fst kvs)) sorted_keys)"

text \<open>\<^verbatim>\<open>idxmax\<close>: the label of the first maximal entry.\<close>

fun idxmax_from :: "'k \<times> real \<Rightarrow> ('k \<times> real) list \<Rightarrow> 'k" where
  "idxmax_from best [] = fst best"
| "idxmax_from best (kv # kvs) = idxmax_from (if snd best < snd kv then kv else best) kvs"

text \<open>Day names sort alphabetically, ISO week numbers numerically.\<close>

definition day_names_sorted :: "weekday list" where
  "day_names_sorted = [Friday, Monday, Saturday, Sunday, Thursday, Tuesday, Wednesday]"

definition week_numbers_sorted :: "nat list" where
  "week_numbers_sorted = [1 ..< 54]"

text \<open>
  The messages are f-strings in the source; the model keeps the message kind and the
  values that are formatted into it.
\<close>

datatype insight =
    NoExpensesYet
  | AddMoreExpenses
  | HighestSpendingDay weekday
  | SpendingIncreased npfloat
  | SpendingVsLastMonth real bool

text \<open>The rows that survive \<^verbatim>\<open>dropna(subset=['Date'])\<close>, with their dates.\<close>

definition dropna_Date :: "datetime option frame \<Rightarrow> (date \<times> real) list" where
  "dropna_Date df =
     concat (map (\<lambda>r. case Date r of None \<Rightarrow> [] | Some t \<Rightarrow> [(ordinal t, Amount r)]) (rows df))"

definition start_of_month :: "date \<Rightarrow> date" where
  "start_of_month today = replace_day1 today"

definition last_month :: "date \<Rightarrow> error + date" where
  "last_month today =
     (case date_add (start_of_month today) (- 1) of
        Inl e \<Rightarrow> Inl e
      | Inr d \<Rightarrow> Inr (replace_day1 d))"

text \<open>
  \<^verbatim>\<open>get_spending_insights\<close> after its two early returns, block by block as the source
  comments name them; \<open>dated\<close> is the table after \<^verbatim>\<open>dropna\<close>, and \<^verbatim>\<open>date.today()\<close> is the
  argument \<open>today\<close>.
\<close>

definition day_of_week_analysis :: "(date \<times> real) list \<Rightarrow> insight list" where
  "day_of_week_analysis dated =
     (let day_spending = groupby_sum day_names_sorted (map (\<lambda>(d, a). (day_name d, a)) dated)
      in case day_spending of
           [] \<Rightarrow> []
         | kv # kvs \<Rightarrow> [HighestSpendingDay (idxmax_from kv kvs)])"

definition weekly_spending_trend :: "(date \<times> real) list \<Rightarrow> insight list" where
  "weekly_spending_trend dated =
     (let weekly_spending = groupby_sum week_numbers_sorted (map (\<lambda>(d, a). (iso_week d, a)) dated)
      in case rev weekly_spending of
           (_, last_week) # (_, second_last) # _ \<Rightarrow>
             if second_last < last_week
             then [SpendingIncreased (np_times (np_div (last_week - second_last) second_last) 100)]
             else []
         | _ \<Rightarrow> [])"

definition recent_vs_previous :: "(date \<times> real) list \<Rightarrow> date \<Rightarrow> error + insight list" where
  "recent_vs_previous dated today =
     (case last_month today of
        Inl e \<Rightarrow> Inl e
      | Inr last_month_start \<Rightarrow>
          let this_month =
                sum_list (map snd (filter (\<lambda>(d, a). start_of_month today \<le> d) dated));
              last_month_spent =
                sum_list (map snd (filter (\<lambda>(d, a). last_month_start \<le> d
                                             \<and> d < start_of_month today) dated))
          in if 0 < last_month_spent \<and> 0 < this_month
             then
               let change = (this_month - last_month_spent) / last_month_spent * 100
               in if 10 < change then Inr [SpendingVsLastMonth \<bar>change\<bar> (0 < change)] else Inr []
             else Inr [])"

definition spending_insights :: "datetime option frame \<Rightarrow> date \<Rightarrow> error + insight list" where
  "spending_insights df today =
     (if rows df = [] then Inr [NoExpensesYet]
      else if \<not> has_Date df then Inr [AddMoreExpenses]
      else
        let dated = dropna_Date df;
            insights = day_of_week_analysis dated;
            insights = insights @ weekly_spending_trend dated
        in case recent_vs_previous dated today of
             Inl e \<Rightarrow> Inl e
           | Inr month_insights \<Rightarrow> Inr (insights @ month_insights))"

definition get_spending_insights :: "pandas \<Rightarrow> expense_file \<Rightarrow> date \<Rightarrow> error + insight list" where
  "get_spending_insights pd file today = spending_insights (ExpenseManager_load pd file) today"

section \<open>BudgetManager\<close>

text \<open>
  The budget file holds one JSON object. \<^verbatim>\<open>set_weekly_budget\<close> writes the keys
  \<^verbatim>\<open>weekly_budget\<close> and \<^verbatim>\<open>week_start\<close> together, so the dictionary that \<^verbatim>\<open>load\<close>
  returns is either empty (\<open>None\<close>: no file, or no budget set) or has both.
  In \<^verbatim>\<open>get_budget_alerts\<close> a row whose date is \<^verbatim>\<open>NaT\<close> compares false and is left
  out of the sum.
\<close>

record budget =
  weekly_budget :: real
  week_start :: date

type_synonym budget_data = "budget option"

definition set_weekly_budget :: "budget_data \<Rightarrow> real \<Rightarrow> date \<Rightarrow> budget_data" where
  "set_weekly_budget file amount today = Some \<lparr>weekly_budget = amount, week_start = today\<rparr>"

datatype alert =
    BudgetExceeded real real npfloat
  | BudgetAt npfloat real real

definition get_budget_alerts :: "budget_data \<Rightarrow> datetime option frame \<Rightarrow> alert list" where
  "get_budget_alerts budget_data expenses_df =
     (case budget_data of
        None \<Rightarrow> []
      | Some b \<Rightarrow>
          if rows expenses_df = [] \<or> \<not> has_Date expenses_df then []
          else
            let this_week_expenses =
                  sum_list (map Amount
                    (filter (\<lambda>r. case Date r of None \<Rightarrow> False | Some t \<Rightarrow> week_start b \<le> ordinal t)
                       (rows expenses_df)));
                percentage = np_times (np_div this_week_expenses (weekly_budget b)) 100
            in if np_ge percentage 100
               then [BudgetExceeded this_week_expenses (weekly_budget b) percentage]
               else if np_ge percentage 80
               then [BudgetAt percentage this_week_expenses (weekly_budget b)]
               else [])"

section \<open>GoalManager\<close>

record goal =
  name :: string
  target_amount :: real
  current_amount :: real
  timeframe_months :: int
  created :: date
  target_date :: date

type_synonym goals_file = "goal list option"

definition GoalManager_load :: "goals_file \<Rightarrow> goal list" where
  "GoalManager_load file = (case file of None \<Rightarrow> [] | Some goals \<Rightarrow> goals)"

definition GoalManager_save :: "goal list \<Rightarrow> goals_file" where
  "GoalManager_save goals = Some goals"

text \<open>
  \<^verbatim>\<open>add\<close>, with \<^verbatim>\<open>date.today()\<close> as the argument \<open>today\<close>: the two reads of the clock
  in \<^verbatim>\<open>add\<close> are taken to fall on the same day.
\<close>

definition GoalManager_add ::
  "goals_file \<Rightarrow> string \<Rightarrow> real \<Rightarrow> int \<Rightarrow> date \<Rightarrow> error + goals_file" where
  "GoalManager_add file nm target months today =
     (let goals = GoalManager_load file in
      case timedelta_days (30 * months) of
        Inl e \<Rightarrow> Inl e
      | Inr days \<Rightarrow>
          (case date_add today days of
             Inl e \<Rightarrow> Inl e
           | Inr target_day \<Rightarrow>
               Inr (GoalManager_save
                     (goals @ [\<lparr>name = nm, target_amount = target, current_amount = 0,
                                timeframe_months = months, created = today,
                                target_date = target_day\<rparr>]))))"

text \<open>
  \<^verbatim>\<open>update_progress\<close> returns the state of the goals file after the call: the file is
  written only inside the \<^verbatim>\<open>if\<close>.
\<close>

definition update_progress :: "goals_file \<Rightarrow> int \<Rightarrow> real \<Rightarrow> goals_file" where
  "update_progress file goal_index amount_added =
     (let goals = GoalManager_load file in
      if 0 \<le> goal_index \<and> goal_index < int (length goals)
      then
        let g = goals ! nat goal_index
        in GoalManager_save
             (goals [nat goal_index := g\<lparr>current_amount := current_amount g + amount_added\<rparr>])
      else file)"

text \<open>A sequence of \<^verbatim>\<open>update_progress\<close> calls, each with its index and amount.\<close>

fun update_progress_calls :: "goals_file \<Rightarrow> (int \<times> real) list \<Rightarrow> goals_file" where
  "update_progress_calls file [] = file"
| "update_progress_calls file ((i, a) # calls) =
     update_progress_calls (update_progress file i a) calls"

section \<open>Restaurant filters\<close>

text \<open>
  A row of the restaurant table, with its \<^verbatim>\<open>name\<close> column as \<open>rname\<close> (the goals have
  a field \<open>name\<close> already); a missing text cell (\<^verbatim>\<open>NaN\<close>) is \<open>None\<close>. A rating cell,
  as \<^verbatim>\<open>read_csv\<close> finds it, is empty, a number, or text that is not a number.
\<close>

datatype rating_cell = Blank | Num real | Txt string

record 'r restaurant =
  rname :: "string option"
  cuisine :: "string option"
  rating :: 'r
  description :: "string option"

text \<open>
  \<^verbatim>\<open>load_data\<close> of the command-line filter: after
  \<^verbatim>\<open>pd.to_numeric(..., errors="coerce")\<close> a rating is a number or \<^verbatim>\<open>NaN\<close> (\<open>None\<close>).
\<close>

definition load_data :: "rating_cell restaurant list \<Rightarrow> real option restaurant list" where
  "load_data csv =
     map (\<lambda>r. \<lparr>rname = rname r, cuisine = cuisine r,
                rating = (case rating r of Num x \<Rightarrow> Some x | _ \<Rightarrow> None),
                description = description r\<rparr>) csv"

text \<open>
  \<^verbatim>\<open>Series.str.contains(pat)\<close> is called with its default \<^verbatim>\<open>regex=True\<close>: \<open>pat\<close> is
  compiled as a regular expression and searched for in every cell. Patterns made of
  ordinary characters and the wildcard \<^verbatim>\<open>.\<close> (any character but a newline) are matched
  here; any other pattern goes to the parameter \<open>re_compile pat ignorecase\<close>, the
  library's regular expression compiler, which returns the search function or raises
  \<^verbatim>\<open>re.error\<close>.
\<close>

definition special_chars :: "string" where
  "special_chars = [CHR ''^'', CHR ''$'', CHR ''*'', CHR ''+'', CHR ''?'', CHR ''{'', CHR ''}'',
                    CHR ''['', CHR '']'', CHR 0x5C, CHR ''|'', CHR ''('', CHR '')'']"

fun match_here :: "string \<Rightarrow> string \<Rightarrow> bool" where
  "match_here [] s = True"
| "match_here (p # ps) [] = False"
| "match_here (p # ps) (c # cs) =
     ((if p = CHR ''.'' then c \<noteq> CHR 0x0A else p = c) \<and> match_here ps cs)"

fun re_search :: "string \<Rightarrow> string \<Rightarrow> bool" where
  "re_search pat [] = match_here pat []"
| "re_search pat (c # cs) = (match_here pat (c # cs) \<or> re_search pat cs)"

definition str_contains ::
  "(string \<Rightarrow> bool \<Rightarrow> error + (string \<Rightarrow> bool)) \<Rightarrow> string \<Rightarrow> bool \<Rightarrow> error + (string \<Rightarrow> bool)" where
  "str_contains re_compile pat ignorecase =
     (if list_all (\<lambda>c. c \<notin> set special_chars) pat
      then Inr (\<lambda>s. if ignorecase then re_search (lower pat) (lower s) else re_search pat s)
      else re_compile pat ignorecase)"

definition fillna :: "'a \<Rightarrow> 'a option \<Rightarrow> 'a" where
  "fillna v cell = (case cell of None \<Rightarrow> v | Some x \<Rightarrow> x)"

text \<open>\<^verbatim>\<open>filter_restaurants\<close> of the command-line filter.\<close>

definition filter_restaurants ::
  "(string \<Rightarrow> bool \<Rightarrow> error + (string \<Rightarrow> bool)) \<Rightarrow> real option restaurant list \<Rightarrow> string \<Rightarrow> real
     \<Rightarrow> error + real option restaurant list" where
  "filter_restaurants re_compile df main_menu min_rating =
     (let keyword = lower (strip main_menu) in
      case str_contains re_compile keyword False of
        Inl e \<Rightarrow> Inl e
      | Inr contains \<Rightarrow>
          let mask_keyword =
                map2 (\<or>) (map (\<lambda>r. contains (lower (fillna [] (cuisine r)))) df)
                         (map (\<lambda>r. contains (lower (fillna [] (rname r)))) df);
              mask_rating = map (\<lambda>r. min_rating \<le> fillna 0 (rating r)) df
          in Inr (map fst (filter snd (zip df (map2 (\<and>) mask_keyword mask_rating)))))"

text \<open>
  The search of the dashboard's restaurant page (the body of \<^verbatim>\<open>if st.button("Search")\<close>
  in \<^verbatim>\<open>show_restaurants\<close>, which the page reaches with a table that has rows). The table
  is the one \<^verbatim>\<open>read_csv\<close> returns, with no \<^verbatim>\<open>to_numeric\<close> and no \<^verbatim>\<open>fillna\<close>:
  \<^item> a text column whose cells are all missing is a column of floats, and \<^verbatim>\<open>.str\<close> on it
    raises \<^verbatim>\<open>AttributeError\<close>;
  \<^item> \<^verbatim>\<open>case=False, na=False\<close>: a missing cell does not match;
  \<^item> a rating column with a cell that is not a number is a column of text, and comparing
    it with \<open>min_rating\<close> raises \<^verbatim>\<open>TypeError\<close>; otherwise a missing rating compares
    false.
\<close>

definition str_accessor :: "string option list \<Rightarrow> error + string option list" where
  "str_accessor col =
     (if col \<noteq> [] \<and> list_all (\<lambda>cell. cell = None) col then Inl AttributeError else Inr col)"

definition rating_ge :: "rating_cell list \<Rightarrow> real \<Rightarrow> error + bool list" where
  "rating_ge col min_rating =
     (if list_ex (\<lambda>cell. case cell of Txt _ \<Rightarrow> True | _ \<Rightarrow> False) col then Inl TypeError
      else Inr (map (\<lambda>cell. case cell of Num x \<Rightarrow> min_rating \<le> x | _ \<Rightarrow> False) col))"

definition show_restaurants_search ::
  "(string \<Rightarrow> bool \<Rightarrow> error + (string \<Rightarrow> bool)) \<Rightarrow> rating_cell restaurant list \<Rightarrow> string \<Rightarrow> real
     \<Rightarrow> error + rating_cell restaurant list" where
  "show_restaurants_search re_compile df cuisine_text min_rating =
     (case str_accessor (map cuisine df) of
        Inl e \<Rightarrow> Inl e
      | Inr cuisines \<Rightarrow>
          (case str_contains re_compile cuisine_text True of
             Inl e \<Rightarrow> Inl e
           | Inr contains \<Rightarrow>
               (case str_accessor (map description df) of
                  Inl e \<Rightarrow> Inl e
                | Inr descriptions \<Rightarrow>
                    let na_False = (\<lambda>cell. case cell of None \<Rightarrow> False | Some s \<Rightarrow> contains s);
                        mask = map2 (\<or>) (map na_False cuisines) (map na_False descriptions)
                    in (case rating_ge (map rating df) min_rating of
                          Inl e \<Rightarrow> Inl e
                        | Inr mask_rating \<Rightarrow>
                            Inr (map fst (filter snd (zip df (map2 (\<and>) mask mask_rating))))))))"

section \<open>Quantities named by the specification\<close>

text \<open>
  The expenses that carry a date, each with its day and amount: none when the table has no
  \<^verbatim>\<open>Date\<close> column, and no row whose date is missing or malformed.
\<close>

definition dated_expenses :: "datetime option frame \<Rightarrow> (date \<times> real) list" where
  "dated_expenses df = (if has_Date df then dropna_Date df else [])"

text \<open>
  The sum of the amounts of the expenses dated from \<open>lo\<close> on, from \<open>lo\<close> up to and
  including \<open>hi\<close>, and from \<open>lo\<close> up to but excluding \<open>hi\<close>.
\<close>

definition spent_since :: "date \<Rightarrow> datetime option frame \<Rightarrow> real" where
  "spent_since lo df = sum_list (map snd (filter (\<lambda>(d, a). lo \<le> d) (dated_expenses df)))"

definition spent_between :: "date \<Rightarrow> date \<Rightarrow> datetime option frame \<Rightarrow> real" where
  "spent_between lo hi df =
     sum_list (map snd (filter (\<lambda>(d, a). lo \<le> d \<and> d \<le> hi) (dated_expenses df)))"

definition spent_from_until :: "date \<Rightarrow> date \<Rightarrow> datetime option frame \<Rightarrow> real" where
  "spent_from_until lo hi df =
     sum_list (map snd (filter (\<lambda>(d, a). lo \<le> d \<and> d < hi) (dated_expenses df)))"







text \<open>A reminder is reported due at \<open>now\<close> when the loop of \<^verbatim>\<open>check_reminders\<close> appends it.\<close>

definition reported_due ::
  "(string \<Rightarrow> string \<Rightarrow> datetime option) \<Rightarrow> datetime \<Rightarrow> bool reminder \<Rightarrow> bool" where
  "reported_due strptime now t = (check_loop strptime now [t] [] \<noteq> [])"

section \<open>Budget alerts\<close>

lemma this_week_expenses_eq:
  "sum_list (map Amount
     (filter (\<lambda>r. case Date r of None \<Rightarrow> False | Some t \<Rightarrow> lo \<le> ordinal t) rs))
   = sum_list (map snd (filter (\<lambda>(d, a). lo \<le> d)
       (concat (map (\<lambda>r. case Date r of None \<Rightarrow> [] | Some t \<Rightarrow> [(ordinal t, Amount r)]) rs))))"
  by (induction rs) (auto split: option.splits)

lemma spent_since_no_rows: "rows df = [] \<Longrightarrow> spent_since lo df = 0"
  by (simp add: spent_since_def dated_expenses_def dropna_Date_def)

lemma spent_since_no_Date: "\<not> has_Date df \<Longrightarrow> spent_since lo df = 0"
  by (simp add: spent_since_def dated_expenses_def)

lemma get_budget_alerts_eq:
  "get_budget_alerts (Some b) df =
     (let percentage = np_times (np_div (spent_since (week_start b) df) (weekly_budget b)) 100
      in if np_ge percentage 100
         then [BudgetExceeded (spent_since (week_start b) df) (weekly_budget b) percentage]
         else if np_ge percentage 80
         then [BudgetAt percentage (spent_since (week_start b) df) (weekly_budget b)]
         else [])"
proof (cases "rows df = [] \<or> \<not> has_Date df")
  case True
  then have "spent_since (week_start b) df = 0"
    using spent_since_no_rows spent_since_no_Date by blast
  moreover have "get_budget_alerts (Some b) df = []"
    using True by (auto simp: get_budget_alerts_def)
  ultimately show ?thesis
    by (simp add: np_div_def)
next
  case False
  then have "spent_since (week_start b) df
      = sum_list (map Amount
          (filter (\<lambda>r. case Date r of None \<Rightarrow> False | Some t \<Rightarrow> week_start b \<le> ordinal t)
             (rows df)))"
    by (simp add: spent_since_def dated_expenses_def dropna_Date_def this_week_expenses_eq)
  then show ?thesis
    using False by (simp add: get_budget_alerts_def Let_def)
qed

lemma np_ge_mono: "np_ge p c \<Longrightarrow> c' \<le> c \<Longrightarrow> np_ge p c'"
  by (cases p) auto

lemma np_lt_not_ge: "np_lt p c \<Longrightarrow> \<not> np_ge p c"
  by (cases p) auto

text \<open>
  C1. With no budget set there is no alert. With a budget, let \<open>spent\<close> be the sum of the
  amounts of the expenses dated on or after \<open>week_start\<close> and
  \<open>percentage = spent / weekly_budget * 100\<close>: the result is the one "exceeded" alert
  exactly when \<open>percentage \<ge> 100\<close>, the one "warning" alert exactly when
  \<open>80 \<le> percentage < 100\<close>, and empty when \<open>percentage < 80\<close>.
\<close>

theorem get_budget_alerts_thresholds:
  "get_budget_alerts None df = [] \<and>
   (let spent = spent_since (week_start b) df;
        percentage = np_times (np_div spent (weekly_budget b)) 100
    in (get_budget_alerts (Some b) df = [BudgetExceeded spent (weekly_budget b) percentage]
          \<longleftrightarrow> np_ge percentage 100) \<and>
       (get_budget_alerts (Some b) df = [BudgetAt percentage spent (weekly_budget b)]
          \<longleftrightarrow> np_ge percentage 80 \<and> np_lt percentage 100) \<and>
       (np_lt percentage 80 \<longrightarrow> get_budget_alerts (Some b) df = []))"
proof -
  define p where "p = np_times (np_div (spent_since (week_start b) df) (weekly_budget b)) 100"
  have none: "get_budget_alerts None df = []"
    by (simp add: get_budget_alerts_def)
  have eq: "get_budget_alerts (Some b) df =
      (if np_ge p 100
       then [BudgetExceeded (spent_since (week_start b) df) (weekly_budget b) p]
       else if np_ge p 80
       then [BudgetAt p (spent_since (week_start b) df) (weekly_budget b)]
       else [])"
    by (simp add: get_budget_alerts_eq p_def Let_def)
  have ge: "np_ge p 100 \<Longrightarrow> np_ge p 80"
    using np_ge_mono [of p 100 80] by simp
  have lt: "np_ge p 80 \<Longrightarrow> (\<not> np_ge p 100) = np_lt p 100"
    by (cases p) auto
  have low: "np_lt p 80 \<Longrightarrow> \<not> np_ge p 80 \<and> \<not> np_ge p 100"
    using np_lt_not_ge ge by blast
  show ?thesis
    unfolding Let_def p_def [symmetric]
    using none eq ge lt low by auto
qed

text \<open>
  The boundaries of the specification, for a weekly budget of 1000 set on 2024-01-01
  (day 738886): 799 spent in the week gives no alert, 800 the warning at 80 percent, 1000 the
  exceeded alert.
\<close>

theorem get_budget_alerts_thresholds_witness:
  "get_budget_alerts (Some \<lparr>weekly_budget = 1000, week_start = 738886\<rparr>)
     \<lparr>has_Date = True,
      rows = [\<lparr>Item = ''rent'', Amount = 500, Date = Some \<lparr>ordinal = 738887, micros = 0\<rparr>\<rparr>,
              \<lparr>Item = ''food'', Amount = 299, Date = Some \<lparr>ordinal = 738888, micros = 0\<rparr>\<rparr>,
              \<lparr>Item = ''old'', Amount = 50, Date = Some \<lparr>ordinal = 738880, micros = 0\<rparr>\<rparr>]\<rparr> = []
   \<and> get_budget_alerts (Some \<lparr>weekly_budget = 1000, week_start = 738886\<rparr>)
     \<lparr>has_Date = True,
      rows = [\<lparr>Item = ''rent'', Amount = 500, Date = Some \<lparr>ordinal = 738887, micros = 0\<rparr>\<rparr>,
              \<lparr>Item = ''food'', Amount = 300, Date = Some \<lparr>ordinal = 738888, micros = 0\<rparr>\<rparr>]\<rparr>
       = [BudgetAt (Fin 80) 800 1000]
   \<and> get_budget_alerts (Some \<lparr>weekly_budget = 1000, week_start = 738886\<rparr>)
     \<lparr>has_Date = True,
      rows = [\<lparr>Item = ''rent'', Amount = 1000, Date = Some \<lparr>ordinal = 738886, micros = 0\<rparr>\<rparr>,
              \<lparr>Item = ''undated'', Amount = 7, Date = None\<rparr>]\<rparr>
       = [BudgetExceeded 1000 1000 (Fin 100)]"
  using
    get_budget_alerts_thresholds [of
      "\<lparr>has_Date = True,
        rows = [\<lparr>Item = ''rent'', Amount = 500, Date = Some \<lparr>ordinal = 738887, micros = 0\<rparr>\<rparr>,
                \<lparr>Item = ''food'', Amount = 299, Date = Some \<lparr>ordinal = 738888, micros = 0\<rparr>\<rparr>,
                \<lparr>Item = ''old'', Amount = 50, Date = Some \<lparr>ordinal = 738880, micros = 0\<rparr>\<rparr>]\<rparr>"
      "\<lparr>weekly_budget = 1000, week_start = 738886\<rparr>"]
    get_budget_alerts_thresholds [of
      "\<lparr>has_Date = True,
        rows = [\<lparr>Item = ''rent'', Amount = 500, Date = Some \<lparr>ordinal = 738887, micros = 0\<rparr>\<rparr>,
                \<lparr>Item = ''food'', Amount = 300, Date = Some \<lparr>ordinal = 738888, micros = 0\<rparr>\<rparr>]\<rparr>"
      "\<lparr>weekly_budget = 1000, week_start = 738886\<rparr>"]
    get_budget_alerts_thresholds [of
      "\<lparr>has_Date = True,
        rows = [\<lparr>Item = ''rent'', Amount = 1000, Date = Some \<lparr>ordinal = 738886, micros = 0\<rparr>\<rparr>,
                \<lparr>Item = ''undated'', Amount = 7, Date = None\<rparr>]\<rparr>"
      "\<lparr>weekly_budget = 1000, week_start = 738886\<rparr>"]
  by (simp add: spent_since_def dated_expenses_def dropna_Date_def np_div_def Let_def)

text \<open>
  C10. \<^verbatim>\<open>get_budget_alerts\<close> returns at most one alert, and never an "exceeded" alert
  together with a "warning" alert.
\<close>

theorem get_budget_alerts_at_most_one:
  "length (get_budget_alerts budget_data df) \<le> 1 \<and>
   \<not> (BudgetExceeded x y z \<in> set (get_budget_alerts budget_data df) \<and>
      BudgetAt u v w \<in> set (get_budget_alerts budget_data df))"
  by (cases budget_data) (auto simp: get_budget_alerts_def Let_def)

section \<open>Due reminders\<close>

lemma dt_le_ordinal: "dt_le a b \<Longrightarrow> ordinal a \<le> ordinal b"
  by (auto simp: dt_le_def)

lemma dt_le_trans: "dt_le a b \<Longrightarrow> dt_le b c \<Longrightarrow> dt_le a c"
  by (auto simp: dt_le_def)

lemma check_loop_append:
  "check_loop strptime now tasks acc
     = acc @ map task (filter (reported_due strptime now) tasks)"
proof (induction tasks arbitrary: acc)
  case Nil
  show ?case by simp
next
  case (Cons t tasks)
  show ?case
    by (simp add: Cons.IH reported_due_def split: option.splits)
qed

lemma reported_due_mono:
  assumes "dt_le T T'" and "reported_due strptime T t"
  shows "reported_due strptime T' t"
proof -
  have ord: "ordinal T \<le> ordinal T'"
    using assms(1) by (rule dt_le_ordinal)
  show ?thesis
  proof (cases "strptime (time t) ''%Y-%m-%d %H:%M''")
    case (Some task_time)
    with assms(2) have "dt_le task_time T"
      by (auto simp: reported_due_def split: if_splits)
    then have "dt_le task_time T'"
      using assms(1) by (rule dt_le_trans)
    with Some assms(2) show ?thesis
      by (auto simp: reported_due_def split: if_splits)
  next
    case None
    with assms(2) ord show ?thesis
      by (auto simp: reported_due_def split: if_splits option.splits)
  qed
qed

lemma subseq_map_filter_mono:
  "(\<And>x. x \<in> set xs \<Longrightarrow> P x \<Longrightarrow> Q x) \<Longrightarrow> subseq (map f (filter P xs)) (map f (filter Q xs))"
  by (induction xs) auto

text \<open>
  C4. \<^verbatim>\<open>check_reminders\<close> reports the texts of the reminders that are due, in the order of
  the list; a reminder reported due at \<open>T\<close> is reported due at every later \<open>T'\<close>, and the
  report at \<open>T\<close> is a subsequence of the report at \<open>T'\<close>. This holds whatever
  \<^verbatim>\<open>strptime\<close> accepts.
\<close>

theorem check_reminders_monotonic:
  assumes "dt_le T T'"
  shows "check_reminders strptime file T
           = map task (filter (reported_due strptime T) (ReminderManager_load file)) \<and>
         (\<forall>t \<in> set (ReminderManager_load file).
            reported_due strptime T t \<longrightarrow> reported_due strptime T' t) \<and>
         subseq (check_reminders strptime file T) (check_reminders strptime file T')"
proof -
  have mono: "\<And>t. reported_due strptime T t \<Longrightarrow> reported_due strptime T' t"
    using assms by (rule reported_due_mono)
  have "subseq (map task (filter (reported_due strptime T) (ReminderManager_load file)))
               (map task (filter (reported_due strptime T') (ReminderManager_load file)))"
    by (rule subseq_map_filter_mono) (rule mono)
  then show ?thesis
    using mono by (simp add: check_reminders_def check_loop_append)
qed

text \<open>
  Three reminders on file: one with a time, due from 2024-01-05 09:30; one with a date only,
  due from 2024-01-06; one whose time does not parse. At 10:00 on 2024-01-05 the first is
  reported, at 08:00 the next day the first two.
\<close>

theorem check_reminders_monotonic_witness:
  "dt_le \<lparr>ordinal = 738890, micros = 36000000000\<rparr> \<lparr>ordinal = 738891, micros = 28800000000\<rparr> \<and>
   check_reminders
     (\<lambda>s f. if f = ''%Y-%m-%d %H:%M'' \<and> s = ''2024-01-05 09:30''
             then Some \<lparr>ordinal = 738890, micros = 34200000000\<rparr>
             else if f = ''%Y-%m-%d'' \<and> s = ''2024-01-06''
             then Some \<lparr>ordinal = 738891, micros = 0\<rparr> else None)
     (Some [\<lparr>task = ''call'', time = ''2024-01-05 09:30'', completed = None\<rparr>,
            \<lparr>task = ''pay rent'', time = ''2024-01-06'', completed = Some False\<rparr>,
            \<lparr>task = ''someday'', time = ''soon'', completed = Some False\<rparr>])
     \<lparr>ordinal = 738890, micros = 36000000000\<rparr> = [''call''] \<and>
   subseq [''call'']
     (check_reminders
       (\<lambda>s f. if f = ''%Y-%m-%d %H:%M'' \<and> s = ''2024-01-05 09:30''
               then Some \<lparr>ordinal = 738890, micros = 34200000000\<rparr>
               else if f = ''%Y-%m-%d'' \<and> s = ''2024-01-06''
               then Some \<lparr>ordinal = 738891, micros = 0\<rparr> else None)
       (Some [\<lparr>task = ''call'', time = ''2024-01-05 09:30'', completed = None\<rparr>,
              \<lparr>task = ''pay rent'', time = ''2024-01-06'', completed = Some False\<rparr>,
              \<lparr>task = ''someday'', time = ''soon'', completed = Some False\<rparr>])
       \<lparr>ordinal = 738891, micros = 28800000000\<rparr>)"
proof -
  let ?T = "\<lparr>ordinal = 738890, micros = 36000000000\<rparr>"
  let ?T' = "\<lparr>ordinal = 738891, micros = 28800000000\<rparr>"
  let ?sp = "\<lambda>s f. if f = ''%Y-%m-%d %H:%M'' \<and> s = ''2024-01-05 09:30''
             then Some \<lparr>ordinal = 738890, micros = 34200000000\<rparr>
             else if f = ''%Y-%m-%d'' \<and> s = ''2024-01-06''
             then Some \<lparr>ordinal = 738891, micros = 0\<rparr> else None"
  let ?file = "Some [\<lparr>task = ''call'', time = ''2024-01-05 09:30'', completed = None\<rparr>,
            \<lparr>task = ''pay rent'', time = ''2024-01-06'', completed = Some False\<rparr>,
            \<lparr>task = ''someday'', time = ''soon'', completed = Some False\<rparr>]"
  have le: "dt_le ?T ?T'"
    by (simp add: dt_le_def)
  have at_T: "check_reminders ?sp ?file ?T = [''call'']"
    by (simp add: check_reminders_def ReminderManager_load_def dt_le_def)
  from check_reminders_monotonic [OF le, of ?sp ?file]
  have "subseq (check_reminders ?sp ?file ?T) (check_reminders ?sp ?file ?T')"
    by blast
  with le at_T show ?thesis
    by simp
qed

section \<open>Savings goals\<close>

lemma timedelta_days_in_range:
  "0 < today \<Longrightarrow> today \<le> MAXORDINAL \<Longrightarrow> 0 < today + n \<Longrightarrow> today + n \<le> MAXORDINAL
     \<Longrightarrow> timedelta_days n = Inr n"
  by (simp add: timedelta_days_def MAXORDINAL_def)

lemma GoalManager_add_Inr:
  assumes "GoalManager_add file nm target months today = Inr file'"
  shows "file' = Some (GoalManager_load file @
            [\<lparr>name = nm, target_amount = target, current_amount = 0, timeframe_months = months,
              created = today, target_date = today + 30 * months\<rparr>])"
  using assms
  by (auto simp: GoalManager_add_def GoalManager_save_def timedelta_days_def date_add_def Let_def
           split: if_splits)

text \<open>
  C7. When today and the day \<open>30 * timeframe_months\<close> days later are dates the library can
  represent, \<^verbatim>\<open>add\<close> succeeds and appends one goal to the file; and whenever \<^verbatim>\<open>add\<close>
  succeeds, the goal it appended has \<open>current_amount = 0\<close> and
  \<open>target_date = created + 30 * timeframe_months\<close> days, with \<open>created\<close> the day of the call.
\<close>

theorem GoalManager_add_target_date:
  "(0 < today \<and> today \<le> MAXORDINAL \<and> 0 < today + 30 * months \<and> today + 30 * months \<le> MAXORDINAL
      \<longrightarrow> (\<exists>file'. GoalManager_add file nm target months today = Inr file')) \<and>
   (GoalManager_add file nm target months today = Inr file'
      \<longrightarrow> (\<exists>g. GoalManager_load file' = GoalManager_load file @ [g] \<and>
               name g = nm \<and> target_amount g = target \<and> timeframe_months g = months \<and>
               created g = today \<and> current_amount g = 0 \<and>
               target_date g = created g + 30 * timeframe_months g))"
proof (intro conjI impI)
  assume ok: "0 < today \<and> today \<le> MAXORDINAL \<and> 0 < today + 30 * months
              \<and> today + 30 * months \<le> MAXORDINAL"
  then have "timedelta_days (30 * months) = Inr (30 * months)"
    by (intro timedelta_days_in_range [of today]) simp_all
  moreover have "date_add today (30 * months) = Inr (today + 30 * months)"
    using ok by (simp add: date_add_def)
  ultimately show "\<exists>file'. GoalManager_add file nm target months today = Inr file'"
    by (simp add: GoalManager_add_def)
next
  assume "GoalManager_add file nm target months today = Inr file'"
  then have "file' = Some (GoalManager_load file @
            [\<lparr>name = nm, target_amount = target, current_amount = 0, timeframe_months = months,
              created = today, target_date = today + 30 * months\<rparr>])"
    by (rule GoalManager_add_Inr)
  then show "\<exists>g. GoalManager_load file' = GoalManager_load file @ [g] \<and>
               name g = nm \<and> target_amount g = target \<and> timeframe_months g = months \<and>
               created g = today \<and> current_amount g = 0 \<and>
               target_date g = created g + 30 * timeframe_months g"
    by (simp add: GoalManager_load_def)
qed

text \<open>
  A goal of 12000 over 12 months, added on 2024-01-01 (day 738886) to a store without a
  file: the target date is day 739246, 360 days later (2024-12-26).
\<close>

theorem GoalManager_add_target_date_witness:
  "GoalManager_add None ''laptop'' 12000 12 738886
     = Inr (Some [\<lparr>name = ''laptop'', target_amount = 12000, current_amount = 0,
                   timeframe_months = 12, created = 738886, target_date = 738886 + 360\<rparr>])"
proof -
  have "0 < (738886 :: int) \<and> (738886 :: int) \<le> MAXORDINAL \<and> 0 < (738886 :: int) + 30 * 12
        \<and> (738886 :: int) + 30 * 12 \<le> MAXORDINAL"
    by (simp add: MAXORDINAL_def)
  with GoalManager_add_target_date [of 738886 12 None "''laptop''" 12000]
  obtain file' where ret: "GoalManager_add None ''laptop'' 12000 12 738886 = Inr file'"
    by blast
  with GoalManager_add_target_date [of 738886 12 None "''laptop''" 12000 file']
  obtain g where "GoalManager_load file' = GoalManager_load None @ [g]"
    "name g = ''laptop''" "target_amount g = 12000" "timeframe_months g = 12"
    "created g = 738886" "current_amount g = 0"
    "target_date g = created g + 30 * timeframe_months g"
    by blast
  then have "GoalManager_load file' = [\<lparr>name = ''laptop'', target_amount = 12000, current_amount = 0,
                   timeframe_months = 12, created = 738886, target_date = 738886 + 360\<rparr>]"
    by (simp add: GoalManager_load_def)
  moreover have "file' \<noteq> None"
    using ret by (auto dest: GoalManager_add_Inr)
  ultimately show ?thesis
    using ret by (auto simp: GoalManager_load_def)
qed

text \<open>
  C6. With an index outside \<open>[0, length)\<close>, \<^verbatim>\<open>update_progress\<close> does not reach
  \<^verbatim>\<open>save\<close>: the goals file after the call is the goals file before it (an absent file stays
  absent), and no step on that path can raise.
\<close>

theorem update_progress_out_of_range:
  assumes "goal_index < 0 \<or> int (length (GoalManager_load file)) \<le> goal_index"
  shows "update_progress file goal_index amount_added = file"
  using assms by (auto simp: update_progress_def)

theorem update_progress_out_of_range_witness:
  "update_progress
     (Some [\<lparr>name = ''laptop'', target_amount = 12000, current_amount = 250,
             timeframe_months = 12, created = 738886, target_date = 739246\<rparr>]) 1 100
   = Some [\<lparr>name = ''laptop'', target_amount = 12000, current_amount = 250,
            timeframe_months = 12, created = 738886, target_date = 739246\<rparr>]
   \<and> update_progress
     (Some [\<lparr>name = ''laptop'', target_amount = 12000, current_amount = 250,
             timeframe_months = 12, created = 738886, target_date = 739246\<rparr>]) (- 1) 100
   = Some [\<lparr>name = ''laptop'', target_amount = 12000, current_amount = 250,
            timeframe_months = 12, created = 738886, target_date = 739246\<rparr>]
   \<and> update_progress None 0 100 = None"
  using
    update_progress_out_of_range [of 1
      "Some [\<lparr>name = ''laptop'', target_amount = 12000, current_amount = 250,
              timeframe_months = 12, created = 738886, target_date = 739246\<rparr>]" 100]
    update_progress_out_of_range [of "- 1"
      "Some [\<lparr>name = ''laptop'', target_amount = 12000, current_amount = 250,
              timeframe_months = 12, created = 738886, target_date = 739246\<rparr>]" 100]
    update_progress_out_of_range [of 0 None 100]
  by (simp add: GoalManager_load_def)

lemma update_progress_length:
  "length (GoalManager_load (update_progress file i a)) = length (GoalManager_load file)"
  by (simp add: update_progress_def GoalManager_load_def GoalManager_save_def Let_def)

lemma update_progress_current_amount:
  assumes "0 \<le> a" and "j < length (GoalManager_load file)"
  shows "current_amount (GoalManager_load file ! j)
           \<le> current_amount (GoalManager_load (update_progress file i a) ! j)"
proof (cases "0 \<le> i \<and> i < int (length (GoalManager_load file))")
  case True
  then have "GoalManager_load (update_progress file i a)
      = (GoalManager_load file)
          [nat i := (GoalManager_load file ! nat i)
             \<lparr>current_amount := current_amount (GoalManager_load file ! nat i) + a\<rparr>]"
    by (simp add: update_progress_def GoalManager_save_def Let_def)
       (simp add: GoalManager_load_def)
  then show ?thesis
    using assms by (cases "j = nat i") simp_all
next
  case False
  then have "update_progress file i a = file"
    by (auto simp: update_progress_def)
  then show ?thesis
    by simp
qed

lemma update_progress_calls_append:
  "update_progress_calls file (xs @ ys) = update_progress_calls (update_progress_calls file xs) ys"
  by (induction xs arbitrary: "file") auto

lemma update_progress_calls_length:
  "length (GoalManager_load (update_progress_calls file calls)) = length (GoalManager_load file)"
  by (induction calls arbitrary: "file") (auto simp: update_progress_length)

lemma update_progress_calls_current_amount:
  assumes "\<forall>c \<in> set calls. 0 \<le> snd c" and "j < length (GoalManager_load file)"
  shows "current_amount (GoalManager_load file ! j)
           \<le> current_amount (GoalManager_load (update_progress_calls file calls) ! j)"
  using assms
proof (induction calls arbitrary: "file")
  case Nil
  show ?case by simp
next
  case (Cons c calls)
  obtain i a where c: "c = (i, a)"
    by (cases c)
  have a: "0 \<le> a"
    using Cons.prems(1) c by simp
  have "current_amount (GoalManager_load file ! j)
          \<le> current_amount (GoalManager_load (update_progress file i a) ! j)"
    using a Cons.prems(2) by (rule update_progress_current_amount)
  also have "\<dots> \<le> current_amount
      (GoalManager_load (update_progress_calls (update_progress file i a) calls) ! j)"
    using Cons.prems by (intro Cons.IH) (simp_all add: update_progress_length)
  finally show ?case
    by (simp add: c)
qed

text \<open>
  C5, as the code has it. \<^verbatim>\<open>update_progress\<close> adds \<open>amount_added\<close> whatever its sign (the
  dashboard's input widget is what keeps it at or above zero). For a sequence of calls whose
  amounts are not negative, no goal's \<open>current_amount\<close> ever decreases: after any further
  calls it is at least what it was, and the list of goals keeps its length.
\<close>

theorem update_progress_never_decreases:
  assumes "\<forall>c \<in> set (earlier @ later). 0 \<le> snd c"
    and "j < length (GoalManager_load file)"
  shows "length (GoalManager_load (update_progress_calls file (earlier @ later)))
           = length (GoalManager_load file) \<and>
         current_amount (GoalManager_load (update_progress_calls file earlier) ! j)
           \<le> current_amount (GoalManager_load (update_progress_calls file (earlier @ later)) ! j)"
proof -
  have "\<forall>c \<in> set later. 0 \<le> snd c"
    using assms(1) by simp
  moreover have "j < length (GoalManager_load (update_progress_calls file earlier))"
    using assms(2) by (simp add: update_progress_calls_length)
  ultimately have "current_amount (GoalManager_load (update_progress_calls file earlier) ! j)
      \<le> current_amount
          (GoalManager_load (update_progress_calls (update_progress_calls file earlier) later) ! j)"
    by (rule update_progress_calls_current_amount)
  then show ?thesis
    by (simp add: update_progress_calls_append update_progress_calls_length)
qed

theorem update_progress_never_decreases_witness:
  "current_amount (GoalManager_load (update_progress_calls
      (Some [\<lparr>name = ''laptop'', target_amount = 12000, current_amount = 250,
              timeframe_months = 12, created = 738886, target_date = 739246\<rparr>])
      [(0, 100)]) ! 0)
   \<le> current_amount (GoalManager_load (update_progress_calls
      (Some [\<lparr>name = ''laptop'', target_amount = 12000, current_amount = 250,
              timeframe_months = 12, created = 738886, target_date = 739246\<rparr>])
      ([(0, 100)] @ [(0, 0), (3, 40), (0, 50)])) ! 0)
   \<and> current_amount (GoalManager_load (update_progress_calls
      (Some [\<lparr>name = ''laptop'', target_amount = 12000, current_amount = 250,
              timeframe_months = 12, created = 738886, target_date = 739246\<rparr>])
      ([(0, 100)] @ [(0, 0), (3, 40), (0, 50)])) ! 0) = 400"
proof -
  let ?file = "Some [\<lparr>name = ''laptop'', target_amount = 12000, current_amount = 250,
              timeframe_months = 12, created = 738886, target_date = 739246\<rparr>]"
  have nonneg: "\<forall>c \<in> set ([(0, 100)] @ [(0, 0), (3, 40), (0, 50)] :: (int \<times> real) list). 0 \<le> snd c"
    by simp
  have len: "0 < length (GoalManager_load ?file)"
    by (simp add: GoalManager_load_def)
  have "current_amount (GoalManager_load (update_progress_calls ?file
          ([(0, 100)] @ [(0, 0), (3, 40), (0, 50)])) ! 0) = 400"
    by (simp add: update_progress_def GoalManager_load_def GoalManager_save_def)
  with update_progress_never_decreases [OF nonneg len] show ?thesis
    by blast
qed

text \<open>
  Without the condition on the amounts the statement fails: one call with the in-range
  index 0 and the amount \<open>-5\<close> takes the goal's \<open>current_amount\<close> from 10 down to 5.
\<close>

theorem update_progress_decreases_counterexample:
  "current_amount (GoalManager_load (update_progress
      (Some [\<lparr>name = ''laptop'', target_amount = 12000, current_amount = 10,
              timeframe_months = 12, created = 738886, target_date = 739246\<rparr>]) 0 (- 5)) ! 0) = 5
   \<and> current_amount (GoalManager_load
      (Some [\<lparr>name = ''laptop'', target_amount = 12000, current_amount = 10,
              timeframe_months = 12, created = 738886, target_date = 739246\<rparr>]) ! 0) = 10
   \<and> (0::int) \<le> 0 \<and> (0::int) < int (length (GoalManager_load
      (Some [\<lparr>name = ''laptop'', target_amount = 12000, current_amount = 10,
              timeframe_months = 12, created = 738886, target_date = 739246\<rparr>])))"
  by (simp add: update_progress_def GoalManager_load_def GoalManager_save_def)

section \<open>Saving what was loaded\<close>











section \<open>Spending insights\<close>

lemma percent_positive: "10 < q * 100 \<Longrightarrow> 0 < (q :: real)"
  by arith

lemma no_month_message_in_day: "SpendingVsLastMonth c h \<notin> set (day_of_week_analysis dated)"
  by (simp add: day_of_week_analysis_def Let_def split: list.splits)

lemma no_month_message_in_week: "SpendingVsLastMonth c h \<notin> set (weekly_spending_trend dated)"
  by (simp add: weekly_spending_trend_def Let_def split: list.splits prod.splits)

lemma recent_vs_previous_eq:
  assumes "last_month today = Inr lm"
  shows "recent_vs_previous dated today =
     Inr (let this_month = sum_list (map snd (filter (\<lambda>(d, a). start_of_month today \<le> d) dated));
              last_month_spent = sum_list (map snd (filter (\<lambda>(d, a). lm \<le> d \<and> d < start_of_month today) dated));
              change = (this_month - last_month_spent) / last_month_spent * 100
          in if 0 < last_month_spent \<and> 0 < this_month \<and> 10 < change
             then [SpendingVsLastMonth \<bar>change\<bar> (0 < change)] else [])"
  using assms by (simp add: recent_vs_previous_def Let_def)

lemma spent_between_eq_since:
  assumes "\<forall>x \<in> set (dated_expenses df). fst x \<le> hi"
  shows "spent_between lo hi df = spent_since lo df"
proof -
  have "filter (\<lambda>(d, a). lo \<le> d \<and> d \<le> hi) (dated_expenses df)
      = filter (\<lambda>(d, a). lo \<le> d) (dated_expenses df)"
    using assms by (intro filter_cong) auto
  then show ?thesis
    by (simp add: spent_between_def spent_since_def)
qed


text \<open>
  C9, as the code has it. When the month before today's exists for the library, the
  insights are produced, and with \<open>this_month\<close> the sum of the expenses dated on or after
  day 1 of the current calendar month (with no upper bound at today), \<open>last_month_spent\<close>
  the sum over the prior calendar month and
  \<open>change = (this_month - last_month_spent) / last_month_spent * 100\<close>: a month-over-month
  message is produced exactly when both sums are strictly positive and \<open>change > 10\<close>; a
  message always reports an increase. When no expense is dated after today, \<open>this_month\<close>
  is the sum from day 1 to today.
\<close>

theorem month_over_month_insight:
  assumes "last_month today = Inr lm"
  shows "\<exists>insights. spending_insights df today = Inr insights \<and>
     (let this_month = spent_since (start_of_month today) df;
          last_month_spent = spent_from_until lm (start_of_month today) df;
          change = (this_month - last_month_spent) / last_month_spent * 100
      in ((\<exists>c h. SpendingVsLastMonth c h \<in> set insights)
            \<longleftrightarrow> 0 < last_month_spent \<and> 0 < this_month \<and> 10 < change) \<and>
         (\<forall>c h. SpendingVsLastMonth c h \<in> set insights
            \<longrightarrow> c = change \<and> h \<and> last_month_spent < this_month) \<and>
         ((\<forall>x \<in> set (dated_expenses df). fst x \<le> today)
            \<longrightarrow> this_month = spent_between (start_of_month today) today df))"
proof -
  define this_month where "this_month = spent_since (start_of_month today) df"
  define last_month_spent where "last_month_spent = spent_from_until lm (start_of_month today) df"
  define change where "change = (this_month - last_month_spent) / last_month_spent * 100"
  define month_insights where "month_insights =
    (if 0 < last_month_spent \<and> 0 < this_month \<and> 10 < change
     then [SpendingVsLastMonth \<bar>change\<bar> (0 < change)] else [])"
  have to_date: "(\<forall>x \<in> set (dated_expenses df). fst x \<le> today)
      \<longrightarrow> this_month = spent_between (start_of_month today) today df"
    by (simp add: this_month_def spent_between_eq_since)
  have incr: "10 < change \<Longrightarrow> 0 < last_month_spent \<Longrightarrow> last_month_spent < this_month"
  proof -
    assume big: "10 < change" and pos: "0 < last_month_spent"
    from big have "10 < (this_month - last_month_spent) / last_month_spent * 100"
      unfolding change_def .
    then have "0 < (this_month - last_month_spent) / last_month_spent"
      by (rule percent_positive)
    with pos show "last_month_spent < this_month"
      by (simp add: zero_less_divide_iff)
  qed
  have month: "((\<exists>c h. SpendingVsLastMonth c h \<in> set month_insights)
            \<longleftrightarrow> 0 < last_month_spent \<and> 0 < this_month \<and> 10 < change) \<and>
         (\<forall>c h. SpendingVsLastMonth c h \<in> set month_insights
            \<longrightarrow> c = change \<and> h \<and> last_month_spent < this_month)"
    using incr by (auto simp: month_insights_def)
  have "\<exists>insights. spending_insights df today = Inr insights \<and>
      (\<forall>c h. SpendingVsLastMonth c h \<in> set insights \<longleftrightarrow> SpendingVsLastMonth c h \<in> set month_insights)"
  proof (cases "rows df = [] \<or> \<not> has_Date df")
    case True
    then have "dated_expenses df = []"
      by (auto simp: dated_expenses_def dropna_Date_def)
    then have "month_insights = []"
      by (simp add: month_insights_def this_month_def spent_since_def)
    moreover have "spending_insights df today = Inr [NoExpensesYet]
        \<or> spending_insights df today = Inr [AddMoreExpenses]"
      using True by (auto simp: spending_insights_def)
    ultimately show ?thesis
      by auto
  next
    case False
    then have dated: "dated_expenses df = dropna_Date df"
      by (simp add: dated_expenses_def)
    have "recent_vs_previous (dropna_Date df) today = Inr month_insights"
      using assms
      by (simp add: recent_vs_previous_eq month_insights_def change_def this_month_def
            last_month_spent_def spent_since_def spent_from_until_def dated Let_def)
    then have "spending_insights df today
        = Inr (day_of_week_analysis (dropna_Date df) @ weekly_spending_trend (dropna_Date df)
               @ month_insights)"
      using False by (simp add: spending_insights_def Let_def)
    then show ?thesis
      by (simp add: no_month_message_in_day no_month_message_in_week)
  qed
  then obtain insights where "spending_insights df today = Inr insights"
    and "\<forall>c h. SpendingVsLastMonth c h \<in> set insights \<longleftrightarrow> SpendingVsLastMonth c h \<in> set month_insights"
    by blast
  with month to_date show ?thesis
    unfolding Let_def this_month_def [symmetric] last_month_spent_def [symmetric]
      change_def [symmetric]
    by blast
qed

text \<open>
  On 2024-01-15 (day 738900), with 100 spent on 2023-12-10 and 200 on 2024-01-10, the
  increase of 100 percent is reported.
\<close>

lemma last_month_of_mid_january_2024: "last_month 738900 = Inr 738855"
  by code_simp

lemma example_this_month: "spent_since (start_of_month 738900)
     \<lparr>has_Date = True,
      rows = [\<lparr>Item = ''rent'', Amount = 100, Date = Some \<lparr>ordinal = 738864, micros = 0\<rparr>\<rparr>,
              \<lparr>Item = ''rent'', Amount = 200, Date = Some \<lparr>ordinal = 738895, micros = 0\<rparr>\<rparr>]\<rparr> = 200"
  by code_simp

lemma example_last_month_spent: "spent_from_until 738855 (start_of_month 738900)
     \<lparr>has_Date = True,
      rows = [\<lparr>Item = ''rent'', Amount = 100, Date = Some \<lparr>ordinal = 738864, micros = 0\<rparr>\<rparr>,
              \<lparr>Item = ''rent'', Amount = 200, Date = Some \<lparr>ordinal = 738895, micros = 0\<rparr>\<rparr>]\<rparr> = 100"
  by code_simp

theorem month_over_month_insight_witness:
  "last_month 738900 = Inr 738855 \<and>
   (\<exists>insights. spending_insights
     \<lparr>has_Date = True,
      rows = [\<lparr>Item = ''rent'', Amount = 100, Date = Some \<lparr>ordinal = 738864, micros = 0\<rparr>\<rparr>,
              \<lparr>Item = ''rent'', Amount = 200, Date = Some \<lparr>ordinal = 738895, micros = 0\<rparr>\<rparr>]\<rparr>
     738900 = Inr insights \<and> (\<exists>c h. SpendingVsLastMonth c h \<in> set insights))"
  using month_over_month_insight [OF last_month_of_mid_january_2024, of
     "\<lparr>has_Date = True,
      rows = [\<lparr>Item = ''rent'', Amount = 100, Date = Some \<lparr>ordinal = 738864, micros = 0\<rparr>\<rparr>,
              \<lparr>Item = ''rent'', Amount = 200, Date = Some \<lparr>ordinal = 738895, micros = 0\<rparr>\<rparr>]\<rparr>"]
  unfolding Let_def example_this_month example_last_month_spent
  using last_month_of_mid_january_2024 by auto

text \<open>
  With the sum taken from day 1 of the month to today the statement fails: on 2024-01-15, with
  100 spent on 2023-12-10 and 200 dated 2024-02-10, nothing was spent from day 1 of the month
  (day 738886) to today, and the message is produced all the same.
\<close>

theorem month_to_date_counterexample:
  "spending_insights
     \<lparr>has_Date = True,
      rows = [\<lparr>Item = ''rent'', Amount = 100, Date = Some \<lparr>ordinal = 738864, micros = 0\<rparr>\<rparr>,
              \<lparr>Item = ''trip'', Amount = 200, Date = Some \<lparr>ordinal = 738926, micros = 0\<rparr>\<rparr>]\<rparr>
     738900 = Inr [HighestSpendingDay Saturday, SpendingVsLastMonth 100 True]
   \<and> start_of_month 738900 = 738886
   \<and> spent_between 738886 738900
     \<lparr>has_Date = True,
      rows = [\<lparr>Item = ''rent'', Amount = 100, Date = Some \<lparr>ordinal = 738864, micros = 0\<rparr>\<rparr>,
              \<lparr>Item = ''trip'', Amount = 200, Date = Some \<lparr>ordinal = 738926, micros = 0\<rparr>\<rparr>]\<rparr> = 0"
  by code_simp

text \<open>
  C3 at a turn of the year. 100 spent on 2023-12-27 (ISO week 52 of 2023) and 200 on
  2024-01-03 (ISO week 1 of 2024): the most recent week's sum exceeds that of the week
  before, and on 2024-01-03 no "spending increased" message is produced. The grouping is by
  ISO week number alone, so week 1 of 2024 sorts before week 52 of 2023 and the comparison
  runs backwards.
\<close>

theorem week_numbers_ignore_the_year:
  "isocalendar 738881 = (2023, 52, 3) \<and> isocalendar 738888 = (2024, 1, 3) \<and>
   groupby_sum week_numbers_sorted [(iso_week 738881, 100), (iso_week 738888, 200)]
     = [(1, 200), (52, 100)] \<and>
   spending_insights
     \<lparr>has_Date = True,
      rows = [\<lparr>Item = ''gift'', Amount = 100, Date = Some \<lparr>ordinal = 738881, micros = 0\<rparr>\<rparr>,
              \<lparr>Item = ''gym'', Amount = 200, Date = Some \<lparr>ordinal = 738888, micros = 0\<rparr>\<rparr>]\<rparr>
     738888 = Inr [HighestSpendingDay Wednesday, SpendingVsLastMonth 100 True]"
  by code_simp

section \<open>Restaurant search\<close>

text \<open>
  For a keyword without regular expression syntax the command-line filter is the substring
  filter: a row is kept exactly when the stripped, lower-cased keyword occurs in the
  lower-cased cuisine or name, and the rating, with 0 for a missing one, is at least
  \<open>min_rating\<close>.
\<close>

lemma match_here_prefix:
  "CHR ''.'' \<notin> set pat \<Longrightarrow> match_here pat s = prefix pat s"
  by (induction pat s rule: match_here.induct) auto

lemma re_search_sublist:
  "CHR ''.'' \<notin> set pat \<Longrightarrow> re_search pat s = sublist pat s"
proof (induction s)
  case Nil
  then show ?case by (simp add: match_here_prefix)
next
  case (Cons c s)
  then show ?case by (simp add: match_here_prefix sublist_Cons_right)
qed

lemma masked_rows:
  "map fst (filter snd (zip df (map2 (\<and>) (map2 (\<or>) (map f df) (map g df)) (map h df))))
     = filter (\<lambda>r. (f r \<or> g r) \<and> h r) df"
  by (induction df) auto

lemma filter_restaurants_plain_keyword:
  assumes "list_all (\<lambda>c. c \<notin> set special_chars \<and> c \<noteq> CHR ''.'') (lower (strip main_menu))"
  shows "filter_restaurants re_compile df main_menu min_rating =
     Inr (filter (\<lambda>r. (sublist (lower (strip main_menu)) (lower (fillna [] (cuisine r))) \<or>
                       sublist (lower (strip main_menu)) (lower (fillna [] (rname r)))) \<and>
                      min_rating \<le> fillna 0 (rating r)) df)"
proof -
  have plain: "list_all (\<lambda>c. c \<notin> set special_chars) (lower (strip main_menu))"
    and nodot: "CHR ''.'' \<notin> set (lower (strip main_menu))"
    using assms by (auto simp: list_all_iff)
  show ?thesis
    using plain nodot
    by (simp add: filter_restaurants_def str_contains_def Let_def masked_rows re_search_sublist)
qed

text \<open>
  The two ways the dashboard search fails before it filters: a table whose descriptions
  are all missing, and a table with a rating that is not a number.
\<close>

lemma show_restaurants_search_all_missing:
  "show_restaurants_search re_compile
     [\<lparr>rname = Some ''Truffles'', cuisine = Some ''Burger, American'', rating = Blank,
       description = None\<rparr>] ''burger'' 0 = Inl AttributeError"
  by (simp add: show_restaurants_search_def str_contains_def special_chars_def str_accessor_def)

lemma show_restaurants_search_text_rating:
  "show_restaurants_search re_compile
     [\<lparr>rname = Some ''Truffles'', cuisine = Some ''Burger, American'', rating = Txt ''NEW'',
       description = Some ''Gourmet patties and fries''\<rparr>] ''burger'' 0 = Inl TypeError"
  by (simp add: show_restaurants_search_def str_contains_def special_chars_def str_accessor_def
        rating_ge_def)

text \<open>
  C8 at two inputs. The keyword \<^verbatim>\<open>.\<close> occurs neither in the name nor in the cuisine of
  the row, and \<^verbatim>\<open>filter_restaurants\<close> returns the row: the keyword is searched for as a
  regular expression, whatever the library does with other patterns. On the dashboard, a
  row with a description, whose cuisine contains the keyword and whose rating is missing,
  is not returned for the minimum rating 0: the missing rating is not replaced by 0 there.
\<close>

theorem filter_restaurants_keyword_is_a_pattern:
  "filter_restaurants re_compile
     [\<lparr>rname = Some ''Truffles'', cuisine = Some ''Burger, American'', rating = Some 4.5,
       description = None\<rparr>] ''.'' 4
   = Inr [\<lparr>rname = Some ''Truffles'', cuisine = Some ''Burger, American'', rating = Some 4.5,
           description = None\<rparr>]
   \<and> \<not> sublist ''.'' (lower ''Truffles'') \<and> \<not> sublist ''.'' (lower ''Burger, American'')
   \<and> show_restaurants_search re_compile
     [\<lparr>rname = Some ''Truffles'', cuisine = Some ''Burger, American'', rating = Blank,
       description = Some ''Gourmet patties and fries''\<rparr>] ''burger'' 0 = Inr []
   \<and> sublist (lower ''burger'') (lower ''Burger, American'')
   \<and> (0 :: real) \<le> fillna 0 None"
  by (simp add: filter_restaurants_def show_restaurants_search_def str_contains_def special_chars_def
        str_accessor_def rating_ge_def fillna_def strip_def isspace_def lower_def lower_char_def
        ascii_uppercase_def ascii_lowercase_def sublist_Cons_right prefix_def)

end
